theory Spec2Isabelle
  imports Main "HOL-Library.Sublist"
begin

section \<open>Python values\<close>

text \<open>
  A raised Python exception, with the text that \<^verbatim>\<open>str(e)\<close> gives for it.
  \<open>PyException\<close> is an instance of the class \<^verbatim>\<open>Exception\<close> (APIError, ConnectionError,
  JSONDecodeError, TypeError, ...), which is what \<^verbatim>\<open>except Exception\<close> catches;
  \<open>PyBaseException\<close> is an instance of \<^verbatim>\<open>BaseException\<close> only (KeyboardInterrupt,
  SystemExit), which that handler lets through.
\<close>

datatype py_raise = PyException string | PyBaseException string

text \<open>
  What \<^verbatim>\<open>json.loads\<close> returns: None, bool, int, float, str, list or dict. Python's
  ints are unbounded; the float type is left as a parameter. A dict from
  \<^verbatim>\<open>json.loads\<close> keeps the order of its keys and has each key once; it is an
  association list read with \<open>map_of\<close>.
\<close>

datatype 'f json =
    JNull
  | JBool bool
  | JInt int
  | JFloat 'f
  | JString string
  | JArray "'f json list"
  | JObject "(string \<times> 'f json) list"

section \<open>data_models.py\<close>

record FeedbackComponent =
  area :: string
  problem :: string
  solution :: string

record VideoAnalysisResult =
  overall_score :: int
  review_check :: bool
  summary_insight :: string
  detailed_feedback :: "FeedbackComponent list"

subsection \<open>Validation of a decoded document\<close>

text \<open>
  The two classes are pydantic models, and the repository has no validation code of its
  own: what a document is validated to is pydantic's reading of the declarations above.
  The definitions below follow pydantic 2 in its default (lax) mode on a decoded JSON
  document: every declared field is required, keys that are not declared are ignored,
  the errors of all fields are collected, and \<^verbatim>\<open>ge=1, le=10\<close> bound the score.
\<close>

datatype loc_item = Key string | Index nat

datatype error_type =
    Missing
  | Model_type
  | Int_type
  | Int_parsing
  | Int_from_float
  | Greater_than_equal int
  | Less_than_equal int
  | Bool_type
  | Bool_parsing
  | String_type
  | List_type

type_synonym error_details = "loc_item list \<times> error_type"

text \<open>
  In lax mode an int field also takes a bool, a float without fractional part and a
  numeric string, and a bool field also takes 0, 1, such a float and words like "true".
  Which floats and strings convert is pydantic's business and is a parameter here.
\<close>

record 'f lax_conversions =
  float_as_int :: "'f \<Rightarrow> int option"
  str_as_int :: "string \<Rightarrow> int option"
  float_as_bool :: "'f \<Rightarrow> bool option"
  str_as_bool :: "string \<Rightarrow> bool option"

fun validate_int :: "'f lax_conversions \<Rightarrow> 'f json \<Rightarrow> error_type + int" where
  "validate_int lax (JInt n) = Inr n"
| "validate_int lax (JBool b) = Inr (if b then 1 else 0)"
| "validate_int lax (JFloat f) =
     (case float_as_int lax f of Some n \<Rightarrow> Inr n | None \<Rightarrow> Inl Int_from_float)"
| "validate_int lax (JString s) =
     (case str_as_int lax s of Some n \<Rightarrow> Inr n | None \<Rightarrow> Inl Int_parsing)"
| "validate_int lax _ = Inl Int_type"

text \<open>The field \<^verbatim>\<open>overall_score: int = Field(..., ge=1, le=10)\<close>.\<close>

definition validate_overall_score :: "'f lax_conversions \<Rightarrow> 'f json \<Rightarrow> error_type + int" where
  "validate_overall_score lax j =
     (case validate_int lax j of
        Inl t \<Rightarrow> Inl t
      | Inr n \<Rightarrow>
          if n < 1 then Inl (Greater_than_equal 1)
          else if 10 < n then Inl (Less_than_equal 10)
          else Inr n)"

fun validate_bool :: "'f lax_conversions \<Rightarrow> 'f json \<Rightarrow> error_type + bool" where
  "validate_bool lax (JBool b) = Inr b"
| "validate_bool lax (JInt n) =
     (if n = 0 then Inr False else if n = 1 then Inr True else Inl Bool_parsing)"
| "validate_bool lax (JFloat f) =
     (case float_as_bool lax f of Some b \<Rightarrow> Inr b | None \<Rightarrow> Inl Bool_parsing)"
| "validate_bool lax (JString s) =
     (case str_as_bool lax s of Some b \<Rightarrow> Inr b | None \<Rightarrow> Inl Bool_parsing)"
| "validate_bool lax _ = Inl Bool_type"

fun validate_str :: "'f json \<Rightarrow> error_type + string" where
  "validate_str (JString s) = Inr s"
| "validate_str _ = Inl String_type"

fun errors :: "error_details list + 'a \<Rightarrow> error_details list" where
  "errors (Inl es) = es"
| "errors (Inr _) = []"

definition at_loc :: "loc_item \<Rightarrow> error_details list \<Rightarrow> error_details list" where
  "at_loc l es = map (\<lambda>(loc, t). (l # loc, t)) es"

definition leaf :: "error_type + 'a \<Rightarrow> error_details list + 'a" where
  "leaf r = (case r of Inl t \<Rightarrow> Inl [([], t)] | Inr x \<Rightarrow> Inr x)"

definition required ::
  "(string \<times> 'f json) list \<Rightarrow> string \<Rightarrow> ('f json \<Rightarrow> error_details list + 'a) \<Rightarrow>
   error_details list + 'a" where
  "required kvs name v =
     (case map_of kvs name of
        None \<Rightarrow> Inl [([Key name], Missing)]
      | Some j \<Rightarrow> (case v j of Inl es \<Rightarrow> Inl (at_loc (Key name) es) | Inr x \<Rightarrow> Inr x))"

definition FeedbackComponent_validate :: "'f json \<Rightarrow> error_details list + FeedbackComponent" where
  "FeedbackComponent_validate j =
     (case j of
        JObject kvs \<Rightarrow>
          (let a = required kvs ''area'' (\<lambda>x. leaf (validate_str x));
               p = required kvs ''problem'' (\<lambda>x. leaf (validate_str x));
               s = required kvs ''solution'' (\<lambda>x. leaf (validate_str x))
           in (case (a, p, s) of
                 (Inr a', Inr p', Inr s') \<Rightarrow> Inr \<lparr>area = a', problem = p', solution = s'\<rparr>
               | _ \<Rightarrow> Inl (errors a @ errors p @ errors s)))
      | _ \<Rightarrow> Inl [([], Model_type)])"

text \<open>The items of a list field, each validated at its index, in order.\<close>

fun validate_items ::
  "('f json \<Rightarrow> error_details list + 'a) \<Rightarrow> nat \<Rightarrow> 'f json list \<Rightarrow> error_details list + 'a list" where
  "validate_items v i [] = Inr []"
| "validate_items v i (x # xs) =
     (case (v x, validate_items v (Suc i) xs) of
        (Inr y, Inr ys) \<Rightarrow> Inr (y # ys)
      | (r, rs) \<Rightarrow> Inl (at_loc (Index i) (errors r) @ errors rs))"

definition validate_list ::
  "('f json \<Rightarrow> error_details list + 'a) \<Rightarrow> 'f json \<Rightarrow> error_details list + 'a list" where
  "validate_list v j =
     (case j of JArray xs \<Rightarrow> validate_items v 0 xs | _ \<Rightarrow> Inl [([], List_type)])"

definition VideoAnalysisResult_validate ::
  "'f lax_conversions \<Rightarrow> 'f json \<Rightarrow> error_details list + VideoAnalysisResult" where
  "VideoAnalysisResult_validate lax j =
     (case j of
        JObject kvs \<Rightarrow>
          (let s = required kvs ''overall_score'' (\<lambda>x. leaf (validate_overall_score lax x));
               c = required kvs ''review_check'' (\<lambda>x. leaf (validate_bool lax x));
               i = required kvs ''summary_insight'' (\<lambda>x. leaf (validate_str x));
               d = required kvs ''detailed_feedback'' (validate_list FeedbackComponent_validate)
           in (case (s, c, i, d) of
                 (Inr s', Inr c', Inr i', Inr d') \<Rightarrow>
                   Inr \<lparr>overall_score = s', review_check = c',
                        summary_insight = i', detailed_feedback = d'\<rparr>
               | _ \<Rightarrow> Inl (errors s @ errors c @ errors i @ errors d)))
      | _ \<Rightarrow> Inl [([], Model_type)])"



section \<open>main_opus_handler.py\<close>

subsection \<open>The google-genai library and the service behind it\<close>

text \<open>
  A content part of a request: \<^verbatim>\<open>types.Part.from_uri\<close> gives a part that refers to a
  file by URI and MIME type, \<^verbatim>\<open>types.Part.from_text\<close> a part that holds text.
\<close>

datatype part = UriPart string string | TextPart string

record generate_content_config =
  response_mime_type :: string
  response_schema :: string

record request =
  model :: string
  contents :: "part list"
  config :: generate_content_config

record response =
  response_text :: "string option"

text \<open>
  The library, the service and the standard output are not part of the repository; the
  program is modelled for any behaviour of theirs. Each of the two \<^verbatim>\<open>Part\<close>
  constructors may raise on its arguments, the call to the service raises or returns a
  response whose \<^verbatim>\<open>text\<close> is a string or None, \<^verbatim>\<open>json.loads\<close> raises or returns the
  decoded value, and \<^verbatim>\<open>print\<close> may raise on the line it is to write (a closed pipe, a
  character that the encoding of the stream does not have).
\<close>

record 'f environment =
  from_uri_raises :: "string \<Rightarrow> string \<Rightarrow> py_raise option"
  from_text_raises :: "string \<Rightarrow> py_raise option"
  generate_content :: "request \<Rightarrow> py_raise + response"
  json_loads :: "string option \<Rightarrow> py_raise + 'f json"
  print_raises :: "string \<Rightarrow> py_raise option"

definition Part_from_uri :: "'f environment \<Rightarrow> string \<Rightarrow> string \<Rightarrow> py_raise + part" where
  "Part_from_uri env uri mime_type =
     (case from_uri_raises env uri mime_type of
        Some e \<Rightarrow> Inl e
      | None \<Rightarrow> Inr (UriPart uri mime_type))"

definition Part_from_text :: "'f environment \<Rightarrow> string \<Rightarrow> py_raise + part" where
  "Part_from_text env txt =
     (case from_text_raises env txt of
        Some e \<Rightarrow> Inl e
      | None \<Rightarrow> Inr (TextPart txt))"

subsection \<open>The program\<close>

definition MODEL_NAME :: string where
  "MODEL_NAME = ''gemini-2.5-flash''"

definition get_base_analysis_prompt :: "string \<Rightarrow> string" where
  "get_base_analysis_prompt goal =
     ''You are an expert video producer and content quality analyst. Your task is to analyze the '' @
     ''provided video URL/file for technical quality issues. '' @
     ''Focus on: 1) Camera Angle/Framing, 2) Lighting Quality, 3) Audio Clarity/Noise, 4) Video Pacing/Engagement. '' @
     ''Generate a structured JSON output that conforms exactly to the VideoAnalysisResult schema. '' @
     ''The user's goal is: '' @ goal @ ''. Be critical but constructive.''"

text \<open>
  The truth value of \<^verbatim>\<open>reference_video_uri\<close> in a condition: None and the empty string
  are false, every other string is true.
\<close>

fun truthy :: "string option \<Rightarrow> bool" where
  "truthy None = False"
| "truthy (Some s) = (s \<noteq> [])"

text \<open>
  Steps 1 and 2 of \<^verbatim>\<open>perform_video_analysis\<close> (lines 31 to 65): the configuration, then
  the list \<^verbatim>\<open>contents\<close>, to which the parts are appended in turn. A constructor that
  raises ends the function with that exception: these lines are outside the
  \<^verbatim>\<open>try\<close>. The result is the keyword arguments of the call of step 3.
\<close>

definition build_request ::
  "'f environment \<Rightarrow> string \<Rightarrow> string \<Rightarrow> string option \<Rightarrow> py_raise + request" where
  "build_request env video_uri user_goal reference_video_uri =
     (let config = \<lparr>response_mime_type = ''application/json'',
                     response_schema = ''VideoAnalysisResult''\<rparr>;
          contents = []
      in (case Part_from_uri env video_uri ''video/mp4'' of
            Inl e \<Rightarrow> Inl e
          | Inr main_video_part \<Rightarrow>
              (let contents = contents @ [main_video_part]
               in (case (if truthy reference_video_uri \<and> user_goal = ''Option 3''
                         then (case Part_from_uri env (the reference_video_uri) ''video/mp4'' of
                                 Inl e \<Rightarrow> Inl e
                               | Inr ref_video_part \<Rightarrow>
                                   Inr (contents @ [ref_video_part],
                                        ''Compare the FIRST video (User's upload) with the SECOND video (Reference/Goal). '' @
                                        get_base_analysis_prompt user_goal))
                         else Inr (contents, get_base_analysis_prompt user_goal)) of
                     Inl e \<Rightarrow> Inl e
                   | Inr (contents, base_prompt) \<Rightarrow>
                       (case Part_from_text env base_prompt of
                          Inl e \<Rightarrow> Inl e
                        | Inr prompt_part \<Rightarrow>
                            Inr \<lparr>model = MODEL_NAME,
                                 contents = contents @ [prompt_part],
                                 config = config\<rparr>)))))"

text \<open>
  The value of the \<^verbatim>\<open>except\<close> branch for an exception whose \<^verbatim>\<open>str\<close> is \<open>msg\<close>.
\<close>

definition error_payload :: "string \<Rightarrow> 'f json" where
  "error_payload msg =
     JObject [(''error'', JString msg),
              (''message'', JString ''Failed to get analysis from Gemini.'')]"

text \<open>
  The whole function: the request of steps 1 and 2, the \<^verbatim>\<open>print\<close> of line 67, then
  step 3 (lines 70 to 83). Line 67 is outside the \<^verbatim>\<open>try\<close>. Inside the \<^verbatim>\<open>try\<close> are the
  call and \<^verbatim>\<open>json.loads(response.text)\<close>, whose value is returned as it is. The handler
  takes an \<^verbatim>\<open>Exception\<close>, prints it (line 81) and returns the error dict; an exception
  of that \<^verbatim>\<open>print\<close> leaves the function. \<open>Inl\<close> is an exception that reaches the
  caller, \<open>Inr\<close> the returned value. What the two \<^verbatim>\<open>print\<close> calls write is not part of
  the result and is not kept; the creation of the module-level client, when the module
  is loaded, is outside the function.
\<close>

definition perform_video_analysis ::
  "'f environment \<Rightarrow> string \<Rightarrow> string \<Rightarrow> string option \<Rightarrow> py_raise + 'f json" where
  "perform_video_analysis env video_uri user_goal reference_video_uri =
     (case build_request env video_uri user_goal reference_video_uri of
        Inl e \<Rightarrow> Inl e
      | Inr req \<Rightarrow>
          (case print_raises env (''-> Sending request to Gemini with goal: '' @ user_goal) of
             Some e \<Rightarrow> Inl e
           | None \<Rightarrow>
               (case (case generate_content env req of
                        Inl e \<Rightarrow> Inl e
                      | Inr resp \<Rightarrow> json_loads env (response_text resp)) of
                  Inr v \<Rightarrow> Inr v
                | Inl (PyException msg) \<Rightarrow>
                    (case print_raises env (''Gemini API Error: '' @ msg) of
                       Some e \<Rightarrow> Inl e
                     | None \<Rightarrow> Inr (error_payload msg))
                | Inl (PyBaseException msg) \<Rightarrow> Inl (PyBaseException msg))))"

subsection \<open>Observations on requests, prompts and results\<close>

text \<open>
  The request of the single-video case (lines 34 to 37, 45 to 49, 63 and 65) and of the
  comparison case (lines 53 to 61 in place of line 63), as the call of line 71 gets them
  when no constructor raises.
\<close>

definition single_request :: "string \<Rightarrow> string \<Rightarrow> request" where
  "single_request video_uri user_goal =
     \<lparr>model = MODEL_NAME,
      contents = [UriPart video_uri ''video/mp4'',
                  TextPart (get_base_analysis_prompt user_goal)],
      config = \<lparr>response_mime_type = ''application/json'',
                response_schema = ''VideoAnalysisResult''\<rparr>\<rparr>"

definition comparison_request :: "string \<Rightarrow> string \<Rightarrow> string \<Rightarrow> request" where
  "comparison_request video_uri user_goal reference_video_uri =
     \<lparr>model = MODEL_NAME,
      contents = [UriPart video_uri ''video/mp4'',
                  UriPart reference_video_uri ''video/mp4'',
                  TextPart (''Compare the FIRST video (User's upload) with the SECOND video (Reference/Goal). '' @
                            get_base_analysis_prompt user_goal)],
      config = \<lparr>response_mime_type = ''application/json'',
                response_schema = ''VideoAnalysisResult''\<rparr>\<rparr>"

fun is_video :: "part \<Rightarrow> bool" where
  "is_video (UriPart uri mime_type) = True"
| "is_video (TextPart txt) = False"

fun is_text :: "part \<Rightarrow> bool" where
  "is_text (UriPart uri mime_type) = False"
| "is_text (TextPart txt) = True"

fun part_text :: "part \<Rightarrow> string option" where
  "part_text (UriPart uri mime_type) = None"
| "part_text (TextPart txt) = Some txt"

text \<open>The prompt texts of a request, in the order of its parts.\<close>

definition prompt_texts :: "request \<Rightarrow> string list" where
  "prompt_texts req = List.map_filter part_text (contents req)"

definition ascii_lower :: "char \<Rightarrow> char" where
  "ascii_lower ch =
     (case map_of (zip ''ABCDEFGHIJKLMNOPQRSTUVWXYZ'' ''abcdefghijklmnopqrstuvwxyz'') ch of
        Some l \<Rightarrow> l
      | None \<Rightarrow> ch)"

text \<open>A text refers to a second video when the words occur in it, in any letter case.\<close>

definition mentions_second_video :: "string \<Rightarrow> bool" where
  "mentions_second_video s = sublist ''second video'' (map ascii_lower s)"

text \<open>
  The fixed text of the base prompt that stands before the colon and the space in front
  of the goal, and the fixed text after the full stop that follows the goal.
\<close>

definition prompt_head :: string where
  "prompt_head =
     ''You are an expert video producer and content quality analyst. Your task is to analyze the '' @
     ''provided video URL/file for technical quality issues. '' @
     ''Focus on: 1) Camera Angle/Framing, 2) Lighting Quality, 3) Audio Clarity/Noise, 4) Video Pacing/Engagement. '' @
     ''Generate a structured JSON output that conforms exactly to the VideoAnalysisResult schema. '' @
     ''The user's goal is''"

definition prompt_tail :: string where
  "prompt_tail = '' Be critical but constructive.''"

text \<open>
  The shape of the error payload: a mapping with a string under \<^verbatim>\<open>error\<close> and a string
  under \<^verbatim>\<open>message\<close>.
\<close>

fun is_error_payload :: "'f json \<Rightarrow> bool" where
  "is_error_payload (JObject kvs) =
     (case (map_of kvs ''error'', map_of kvs ''message'') of
        (Some (JString e), Some (JString m)) \<Rightarrow> True
      | _ \<Rightarrow> False)"
| "is_error_payload _ = False"

subsection \<open>Valid JSON texts\<close>

text \<open>
  What the specification calls valid JSON, to compare \<^verbatim>\<open>json.loads\<close> with: a recogniser
  for the grammar of RFC 8259 over the bytes of a text. Each function takes the rest of
  the text and gives what is left after the phrase it recognises, or None. A value, the
  elements of an array and the members of an object are recognised with a bound on the
  number of nested calls; every call but the outermost comes after at least one byte
  was read, so one more than the length of the text is enough.
\<close>

definition is_ws :: "char \<Rightarrow> bool" where
  "is_ws c \<longleftrightarrow> c \<in> set [CHR 0x20, CHR 0x09, CHR 0x0A, CHR 0x0D]"

definition skip_ws :: "string \<Rightarrow> string" where
  "skip_ws s = dropWhile is_ws s"

definition is_digit :: "char \<Rightarrow> bool" where
  "is_digit c \<longleftrightarrow> c \<in> set ''0123456789''"

definition is_hex :: "char \<Rightarrow> bool" where
  "is_hex c \<longleftrightarrow> c \<in> set ''0123456789abcdefABCDEF''"

definition is_control :: "char \<Rightarrow> bool" where
  "is_control c \<longleftrightarrow> \<not> (digit5 c \<or> digit6 c \<or> digit7 c)"

fun json_digits1 :: "string \<Rightarrow> string option" where
  "json_digits1 [] = None"
| "json_digits1 (c # s) = (if is_digit c then Some (dropWhile is_digit s) else None)"

fun json_int :: "string \<Rightarrow> string option" where
  "json_int [] = None"
| "json_int (c # s) =
     (if c = CHR ''0'' then Some s
      else if is_digit c then Some (dropWhile is_digit s)
      else None)"

fun json_frac :: "string \<Rightarrow> string option" where
  "json_frac (c # s) = (if c = CHR ''.'' then json_digits1 s else Some (c # s))"
| "json_frac [] = Some []"

fun json_sign :: "string \<Rightarrow> string" where
  "json_sign (c # s) = (if c = CHR ''+'' \<or> c = CHR ''-'' then s else c # s)"
| "json_sign [] = []"

fun json_exp :: "string \<Rightarrow> string option" where
  "json_exp (c # s) =
     (if c = CHR ''e'' \<or> c = CHR ''E'' then json_digits1 (json_sign s) else Some (c # s))"
| "json_exp [] = Some []"

fun json_minus :: "string \<Rightarrow> string" where
  "json_minus (c # s) = (if c = CHR ''-'' then s else c # s)"
| "json_minus [] = []"

definition json_number :: "string \<Rightarrow> string option" where
  "json_number s = Option.bind (Option.bind (json_int (json_minus s)) json_frac) json_exp"

fun json_string_body :: "string \<Rightarrow> string option" where
  "json_string_body [] = None"
| "json_string_body [c] = (if c = CHR 0x22 then Some [] else None)"
| "json_string_body (c # e # s) =
     (if c = CHR 0x22 then Some (e # s)
      else if c = CHR 0x5C then
        (if e \<in> set [CHR 0x22, CHR 0x5C, CHR ''/'', CHR ''b'', CHR ''f'', CHR ''n'', CHR ''r'', CHR ''t'']
         then json_string_body s
         else if e = CHR ''u'' \<and> 4 \<le> length s \<and> list_all is_hex (take 4 s)
         then json_string_body (drop 4 s)
         else None)
      else if is_control c then None
      else json_string_body (e # s))"

fun json_value :: "nat \<Rightarrow> string \<Rightarrow> string option"
  and json_elements :: "nat \<Rightarrow> string \<Rightarrow> string option"
  and json_members :: "nat \<Rightarrow> string \<Rightarrow> string option" where
  "json_value 0 s = None"
| "json_value (Suc k) [] = None"
| "json_value (Suc k) (c # s) =
     (if c = CHR ''{'' then
        (case skip_ws s of
           [] \<Rightarrow> None
         | d # r \<Rightarrow> if d = CHR ''}'' then Some r else json_members k (d # r))
      else if c = CHR ''['' then
        (case skip_ws s of
           [] \<Rightarrow> None
         | d # r \<Rightarrow> if d = CHR '']'' then Some r else json_elements k (d # r))
      else if c = CHR 0x22 then json_string_body s
      else if prefix ''true'' (c # s) then Some (drop 4 (c # s))
      else if prefix ''false'' (c # s) then Some (drop 5 (c # s))
      else if prefix ''null'' (c # s) then Some (drop 4 (c # s))
      else json_number (c # s))"
| "json_elements 0 s = None"
| "json_elements (Suc k) s =
     (case json_value k s of
        None \<Rightarrow> None
      | Some r \<Rightarrow>
          (case skip_ws r of
             [] \<Rightarrow> None
           | d # r' \<Rightarrow>
               if d = CHR '','' then json_elements k (skip_ws r')
               else if d = CHR '']'' then Some r'
               else None))"
| "json_members 0 s = None"
| "json_members (Suc k) [] = None"
| "json_members (Suc k) (c # s) =
     (if c = CHR 0x22 then
        (case json_string_body s of
           None \<Rightarrow> None
         | Some r \<Rightarrow>
             (case skip_ws r of
                [] \<Rightarrow> None
              | d # r' \<Rightarrow>
                  if d = CHR '':'' then
                    (case json_value k (skip_ws r') of
                       None \<Rightarrow> None
                     | Some r2 \<Rightarrow>
                         (case skip_ws r2 of
                            [] \<Rightarrow> None
                          | d2 # r3 \<Rightarrow>
                              if d2 = CHR '','' then json_members k (skip_ws r3)
                              else if d2 = CHR ''}'' then Some r3
                              else None))
                  else None))
      else None)"

definition valid_json :: "string \<Rightarrow> bool" where
  "valid_json s =
     (case json_value (Suc (length s)) (skip_ws s) of
        None \<Rightarrow> False
      | Some r \<Rightarrow> skip_ws r = [])"

subsection \<open>A scripted service\<close>

text \<open>
  The floats of the scripted runs: \<open>Finite m e\<close> stands for \<open>m\<close> times 2 to the power
  \<open>e\<close>; the other three are the values that \<^verbatim>\<open>json.loads\<close> gives for the texts
  Infinity, -Infinity and NaN.
\<close>

datatype py_float = Finite int int | Infinity | Neg_Infinity | NaN

text \<open>
  An environment for running the program on concrete inputs, as a test with a mocked
  service does: no constructor raises, the call has the given outcome,
  \<^verbatim>\<open>json.loads\<close> decodes the listed texts and raises on None and on any other text, and
  \<^verbatim>\<open>print\<close> never raises.
\<close>

definition scripted ::
  "(py_raise + response) \<Rightarrow> (string \<times> 'f json) list \<Rightarrow> 'f environment" where
  "scripted outcome decoded =
     \<lparr>from_uri_raises = (\<lambda>uri mime_type. None),
      from_text_raises = (\<lambda>txt. None),
      generate_content = (\<lambda>req. outcome),
      json_loads = (\<lambda>t. case t of
          None \<Rightarrow> Inl (PyException ''the JSON object must be str, bytes or bytearray, not NoneType'')
        | Some s \<Rightarrow>
            (case map_of decoded s of
               Some v \<Rightarrow> Inr v
             | None \<Rightarrow> Inl (PyException ''Expecting value: line 1 column 1 (char 0)''))),
      print_raises = (\<lambda>line. None)\<rparr>"

text \<open>The service of the failure scenario: the connection is refused.\<close>

definition refused :: "py_float environment" where
  "refused = scripted (Inl (PyException ''[Errno 111] Connection refused'')) []"

text \<open>A library whose \<^verbatim>\<open>Part.from_uri\<close> raises on the empty URI.\<close>

definition rejecting :: "py_float environment" where
  "rejecting =
     refused\<lparr>from_uri_raises :=
       (\<lambda>uri mime_type. if uri = [] then Some (PyException ''invalid URI'') else None)\<rparr>"

text \<open>
  A standard output that takes ASCII only, as under the C locale, and a service whose
  refusal is reported with a message that has a character outside ASCII (the two bytes
  of an accented letter).
\<close>

definition is_ascii :: "string \<Rightarrow> bool" where
  "is_ascii s = list_all (\<lambda>c. \<not> digit7 c) s"

definition refused_ascii_stdout :: "py_float environment" where
  "refused_ascii_stdout =
     (scripted (Inl (PyException (''Connexion refus'' @ [CHR 0xC3, CHR 0xA9] @ ''e''))) [])
       \<lparr>print_raises :=
          (\<lambda>line. if is_ascii line then None
                   else Some (PyException ''ordinal not in range(128)''))\<rparr>"

text \<open>
  A service that answers with the text NaN, which \<^verbatim>\<open>json.loads\<close> decodes to the float
  nan, and a call that is interrupted from the keyboard.
\<close>

definition nan_reply :: "py_float environment" where
  "nan_reply = scripted (Inr \<lparr>response_text = Some ''NaN''\<rparr>) [(''NaN'', JFloat NaN)]"

definition interrupted :: "py_float environment" where
  "interrupted = scripted (Inl (PyBaseException [])) []"

text \<open>Lax conversions that convert nothing.\<close>

definition no_conversions :: "py_float lax_conversions" where
  "no_conversions =
     \<lparr>float_as_int = (\<lambda>f. None), str_as_int = (\<lambda>s. None),
      float_as_bool = (\<lambda>f. None), str_as_bool = (\<lambda>s. None)\<rparr>"

text \<open>
  A response text whose score is out of range, the document it decodes to, and the
  service that answers with it.
\<close>

definition score_11_text :: string where
  \<open>score_11_text =
     ''{"overall_score": 11, "review_check": false, "summary_insight": "Great.", "detailed_feedback": []}''\<close>

definition score_11_document :: "py_float json" where
  "score_11_document =
     JObject [(''overall_score'', JInt 11),
              (''review_check'', JBool False),
              (''summary_insight'', JString ''Great.''),
              (''detailed_feedback'', JArray [])]"

definition score_11_reply :: "py_float environment" where
  "score_11_reply =
     scripted (Inr \<lparr>response_text = Some score_11_text\<rparr>) [(score_11_text, score_11_document)]"


section \<open>Occurrences of a word in a text with a hole\<close>

lemma prefix_Cons_fresh: "c \<notin> set w \<Longrightarrow> prefix w (c # ys) \<longleftrightarrow> w = []"
  by (cases w) auto

lemma sublist_separator:
  assumes "c \<notin> set w"
  shows "sublist w (xs @ c # ys) \<longleftrightarrow> sublist w xs \<or> sublist w ys"
proof
  assume "sublist w (xs @ c # ys)"
  then consider "sublist w xs" | "sublist w (c # ys)"
    | w1 w2 where "w = w1 @ w2" "suffix w1 xs" "prefix w2 (c # ys)"
    by (auto simp: sublist_append)
  then show "sublist w xs \<or> sublist w ys"
  proof cases
    case 1
    then show ?thesis by simp
  next
    case 2
    then show ?thesis
      using assms by (auto simp: sublist_Cons_right prefix_Cons_fresh)
  next
    case 3
    from 3(1) assms have "c \<notin> set w2" by simp
    with 3(3) have "w2 = []" by (simp add: prefix_Cons_fresh)
    with 3(1,2) show ?thesis by auto
  qed
next
  assume "sublist w xs \<or> sublist w ys"
  then show "sublist w (xs @ c # ys)"
    by (auto simp: sublist_append sublist_Cons_right)
qed

lemma sublist_between:
  assumes "c \<notin> set w" and "d \<notin> set w" and "\<not> sublist w A" and "\<not> sublist w B"
    and "w \<noteq> []" and "hd w \<noteq> e"
  shows "sublist w (A @ c # (e # g) @ d # B) \<longleftrightarrow> sublist w g"
proof -
  have "sublist w (A @ c # (e # g) @ d # B) \<longleftrightarrow> sublist w ((e # g) @ d # B)"
    using sublist_separator [OF assms(1), of A "(e # g) @ d # B"] assms(3) by simp
  also have "\<dots> \<longleftrightarrow> sublist w (e # g)"
    using sublist_separator [OF assms(2), of "e # g" B] assms(4) by simp
  also have "\<dots> \<longleftrightarrow> sublist w g"
    using assms(5,6) by (cases w) (auto simp: sublist_Cons_right)
  finally show ?thesis .
qed

lemma base_prompt_split:
  "get_base_analysis_prompt goal = prompt_head @ CHR '':'' # (CHR '' '' # goal) @ CHR ''.'' # prompt_tail"
  by (simp add: get_base_analysis_prompt_def prompt_head_def prompt_tail_def)

lemma head_no_second_video: "\<not> sublist ''second video'' (map ascii_lower prompt_head)"
  by code_simp

lemma tail_no_second_video: "\<not> sublist ''second video'' (map ascii_lower prompt_tail)"
  by code_simp

lemma base_prompt_mentions:
  "mentions_second_video (get_base_analysis_prompt goal) \<longleftrightarrow> mentions_second_video goal"
proof -
  have "map ascii_lower (get_base_analysis_prompt goal) =
      map ascii_lower prompt_head @ CHR '':'' # (CHR '' '' # map ascii_lower goal) @
      CHR ''.'' # map ascii_lower prompt_tail"
    by (simp add: base_prompt_split ascii_lower_def)
  then show ?thesis
    unfolding mentions_second_video_def
    by (simp only:) (rule sublist_between [OF _ _ head_no_second_video tail_no_second_video], simp_all)
qed

section \<open>The request that is built\<close>

lemma build_request_single:
  "\<not> (truthy r \<and> g = ''Option 3'') \<Longrightarrow>
   build_request env v g r =
     (case from_uri_raises env v ''video/mp4'' of
        Some e \<Rightarrow> Inl e
      | None \<Rightarrow>
          (case from_text_raises env (get_base_analysis_prompt g) of
             Some e \<Rightarrow> Inl e
           | None \<Rightarrow> Inr (single_request v g)))"
  by (auto simp add: build_request_def Part_from_uri_def Part_from_text_def Let_def
      single_request_def split: option.splits)

lemma build_request_comparison:
  "u \<noteq> [] \<Longrightarrow>
   build_request env v ''Option 3'' (Some u) =
     (case from_uri_raises env v ''video/mp4'' of
        Some e \<Rightarrow> Inl e
      | None \<Rightarrow>
          (case from_uri_raises env u ''video/mp4'' of
             Some e \<Rightarrow> Inl e
           | None \<Rightarrow>
               (case from_text_raises env
                       (''Compare the FIRST video (User's upload) with the SECOND video (Reference/Goal). '' @
                        get_base_analysis_prompt ''Option 3'') of
                  Some e \<Rightarrow> Inl e
                | None \<Rightarrow> Inr (comparison_request v ''Option 3'' u))))"
  by (simp add: build_request_def Part_from_uri_def Part_from_text_def Let_def
      comparison_request_def split: option.splits)

lemma single_built:
  assumes "\<not> (truthy r \<and> g = ''Option 3'')" and "build_request env v g r = Inr req"
  shows "req = single_request v g"
  using assms(2) unfolding build_request_single [OF assms(1)]
  by (auto split: option.splits)

lemma comparison_built:
  assumes "u \<noteq> []" and "build_request env v ''Option 3'' (Some u) = Inr req"
  shows "req = comparison_request v ''Option 3'' u"
  using assms(2) unfolding build_request_comparison [OF assms(1)]
  by (auto split: option.splits)

lemma scripted_builds_single:
  "\<not> (truthy r \<and> g = ''Option 3'') \<Longrightarrow>
   build_request (scripted outcome decoded) v g r = Inr (single_request v g)"
  by (simp add: build_request_single scripted_def)

lemma scripted_builds_comparison:
  "u \<noteq> [] \<Longrightarrow>
   build_request (scripted outcome decoded) v ''Option 3'' (Some u) =
     Inr (comparison_request v ''Option 3'' u)"
  by (simp add: build_request_comparison scripted_def)

lemma after_request:
  assumes "build_request env v g r = Inr req"
    and "print_raises env (''-> Sending request to Gemini with goal: '' @ g) = None"
  shows "perform_video_analysis env v g r =
           (case (case generate_content env req of
                    Inl e \<Rightarrow> Inl e
                  | Inr resp \<Rightarrow> json_loads env (response_text resp)) of
              Inr x \<Rightarrow> Inr x
            | Inl (PyException msg) \<Rightarrow>
                (case print_raises env (''Gemini API Error: '' @ msg) of
                   Some e \<Rightarrow> Inl e
                 | None \<Rightarrow> Inr (error_payload msg))
            | Inl (PyBaseException msg) \<Rightarrow> Inl (PyBaseException msg))"
  unfolding perform_video_analysis_def assms sum.case option.case by (rule refl)

lemma exception_absorbed:
  assumes "build_request env v g r = Inr req"
    and "print_raises env (''-> Sending request to Gemini with goal: '' @ g) = None"
    and "generate_content env req = Inl (PyException msg)"
    and "print_raises env (''Gemini API Error: '' @ msg) = None"
  shows "perform_video_analysis env v g r = Inr (error_payload msg)"
  unfolding after_request [OF assms(1,2)] using assms(3,4) by simp

lemma decoded_value_returned:
  assumes "build_request env v g r = Inr req"
    and "print_raises env (''-> Sending request to Gemini with goal: '' @ g) = None"
    and "generate_content env req = Inr resp"
    and "json_loads env (response_text resp) = Inr doc"
  shows "perform_video_analysis env v g r = Inr doc"
  unfolding after_request [OF assms(1,2)] using assms(3,4) by simp

lemma scripted_prints: "print_raises (scripted outcome decoded) line = None"
  by (simp add: scripted_def)

lemma scripted_call: "generate_content (scripted outcome decoded) req = outcome"
  by (simp add: scripted_def)

lemma scripted_decodes:
  "json_loads (scripted outcome [(txt, doc)]) (Some txt) = Inr doc"
  by (simp add: scripted_def)

lemma refused_builds_single:
  "build_request refused v ''Option 2'' None = Inr (single_request v ''Option 2'')"
  by (simp add: refused_def scripted_builds_single)

lemma refused_call:
  "generate_content refused req = Inl (PyException ''[Errno 111] Connection refused'')"
  by (simp add: refused_def scripted_def)

lemma refused_prints: "print_raises refused line = None"
  by (simp add: refused_def scripted_def)

lemma rejecting_builds_comparison:
  "v \<noteq> [] \<Longrightarrow> u \<noteq> [] \<Longrightarrow>
   build_request rejecting v ''Option 3'' (Some u) = Inr (comparison_request v ''Option 3'' u)"
  by (simp add: build_request_comparison rejecting_def refused_def scripted_def)

lemma score_11_rejected:
  "VideoAnalysisResult_validate lax score_11_document =
     Inl [([Key ''overall_score''], Less_than_equal 10)]"
  by (simp add: VideoAnalysisResult_validate_def score_11_document_def required_def leaf_def
      validate_overall_score_def validate_list_def at_loc_def)

lemma error_payload_shape: "is_error_payload (error_payload msg)"
  by (simp add: error_payload_def)

section \<open>What is returned for a decoded response\<close>

text \<open>
  C1, as stated, fails: the service answers with a text that is valid JSON and that
  decodes to a document whose score is 11; validation rejects the document, and the
  program returns the document itself, which is not an error payload.
\<close>

theorem nonconforming_value_returned_counterexample:
  "valid_json score_11_text \<and>
   generate_content score_11_reply (single_request ''http://example/video.mp4'' ''Option 2'') =
     Inr \<lparr>response_text = Some score_11_text\<rparr> \<and>
   json_loads score_11_reply (Some score_11_text) = Inr score_11_document \<and>
   VideoAnalysisResult_validate no_conversions score_11_document =
     Inl [([Key ''overall_score''], Less_than_equal 10)] \<and>
   perform_video_analysis score_11_reply ''http://example/video.mp4'' ''Option 2'' None =
     Inr score_11_document \<and>
   \<not> is_error_payload score_11_document"
proof -
  have v: "valid_json score_11_text"
    by code_simp
  have b: "build_request score_11_reply ''http://example/video.mp4'' ''Option 2'' None =
      Inr (single_request ''http://example/video.mp4'' ''Option 2'')"
    unfolding score_11_reply_def by (rule scripted_builds_single) simp
  have p: "print_raises score_11_reply (''-> Sending request to Gemini with goal: '' @ ''Option 2'') = None"
    unfolding score_11_reply_def by (rule scripted_prints)
  have g: "generate_content score_11_reply (single_request ''http://example/video.mp4'' ''Option 2'') =
     Inr \<lparr>response_text = Some score_11_text\<rparr>"
    unfolding score_11_reply_def by (rule scripted_call)
  have j: "json_loads score_11_reply (Some score_11_text) = Inr score_11_document"
    unfolding score_11_reply_def by (rule scripted_decodes)
  then have j': "json_loads score_11_reply (response_text \<lparr>response_text = Some score_11_text\<rparr>) =
     Inr score_11_document"
    by simp
  have n: "\<not> is_error_payload score_11_document"
    by (simp add: score_11_document_def)
  from v g j score_11_rejected [of no_conversions] decoded_value_returned [OF b p g j'] n
  show ?thesis by blast
qed

text \<open>
  C1, amended: when \<^verbatim>\<open>json.loads\<close> decodes the response text to a document that violates
  the schema, \<^verbatim>\<open>perform_video_analysis\<close> returns that document as it is: what the caller
  gets is rejected by the schema with the same errors, and it has the shape of the error
  payload only if the decoded document itself has it.
\<close>

theorem nonconforming_value_returned:
  assumes "build_request env video_uri user_goal reference_video_uri = Inr req"
    and "print_raises env (''-> Sending request to Gemini with goal: '' @ user_goal) = None"
    and "generate_content env req = Inr resp"
    and "json_loads env (response_text resp) = Inr doc"
    and "VideoAnalysisResult_validate lax doc = Inl errs"
  shows "perform_video_analysis env video_uri user_goal reference_video_uri = Inr doc \<and>
         (\<forall>x. perform_video_analysis env video_uri user_goal reference_video_uri = Inr x \<longrightarrow>
              VideoAnalysisResult_validate lax x = Inl errs \<and>
              (is_error_payload x \<longrightarrow> is_error_payload doc))"
  using decoded_value_returned [OF assms(1-4)] assms(5) by simp

theorem nonconforming_value_returned_witness:
  "VideoAnalysisResult_validate no_conversions score_11_document =
     Inl [([Key ''overall_score''], Less_than_equal 10)] \<and>
   perform_video_analysis score_11_reply
       ''http://example/video.mp4'' ''Option 3'' (Some ''http://example/reference.mp4'')
     = Inr score_11_document \<and>
   \<not> is_error_payload score_11_document"
proof -
  have b: "build_request score_11_reply
       ''http://example/video.mp4'' ''Option 3'' (Some ''http://example/reference.mp4'') =
      Inr (comparison_request ''http://example/video.mp4'' ''Option 3'' ''http://example/reference.mp4'')"
    unfolding score_11_reply_def by (rule scripted_builds_comparison) simp
  have p: "print_raises score_11_reply (''-> Sending request to Gemini with goal: '' @ ''Option 3'') = None"
    unfolding score_11_reply_def by (rule scripted_prints)
  have g: "generate_content score_11_reply
       (comparison_request ''http://example/video.mp4'' ''Option 3'' ''http://example/reference.mp4'')
      = Inr \<lparr>response_text = Some score_11_text\<rparr>"
    unfolding score_11_reply_def by (rule scripted_call)
  have j: "json_loads score_11_reply (response_text \<lparr>response_text = Some score_11_text\<rparr>) =
     Inr score_11_document"
    unfolding score_11_reply_def by (simp add: scripted_decodes)
  have w: "VideoAnalysisResult_validate no_conversions score_11_document =
     Inl [([Key ''overall_score''], Less_than_equal 10)]"
    by (rule score_11_rejected)
  have n: "\<not> is_error_payload score_11_document"
    by (simp add: score_11_document_def)
  from nonconforming_value_returned [OF b p g j w] w n show ?thesis by blast
qed

section \<open>Failures of the call and of the decoding\<close>

text \<open>
  C2, as stated, fails in three ways. The call is refused with a message that the
  standard output cannot encode: the \<^verbatim>\<open>print\<close> of the handler raises, and the function
  raises with it. The response text is NaN, which is not valid JSON: \<^verbatim>\<open>json.loads\<close>
  decodes it, and the float is returned, not the mapping. The call is interrupted from
  the keyboard: the handler does not take the exception, and it reaches the caller.
\<close>

theorem failure_returns_error_payload_counterexample:
  "generate_content refused_ascii_stdout
       (single_request ''http://example/video.mp4'' ''Option 2'') =
     Inl (PyException (''Connexion refus'' @ [CHR 0xC3, CHR 0xA9] @ ''e'')) \<and>
   perform_video_analysis refused_ascii_stdout ''http://example/video.mp4'' ''Option 2'' None =
     Inl (PyException ''ordinal not in range(128)'') \<and>
   \<not> valid_json ''NaN'' \<and>
   generate_content nan_reply (single_request ''http://example/video.mp4'' ''Option 2'') =
     Inr \<lparr>response_text = Some ''NaN''\<rparr> \<and>
   perform_video_analysis nan_reply ''http://example/video.mp4'' ''Option 2'' None =
     Inr (JFloat NaN) \<and>
   \<not> is_error_payload (JFloat NaN :: py_float json) \<and>
   generate_content interrupted (single_request ''http://example/video.mp4'' ''Option 2'') =
     Inl (PyBaseException []) \<and>
   perform_video_analysis interrupted ''http://example/video.mp4'' ''Option 2'' None =
     Inl (PyBaseException [])"
proof -
  have b1: "build_request refused_ascii_stdout ''http://example/video.mp4'' ''Option 2'' None =
      Inr (single_request ''http://example/video.mp4'' ''Option 2'')"
    by (simp add: build_request_single refused_ascii_stdout_def scripted_def)
  have p1: "print_raises refused_ascii_stdout
      (''-> Sending request to Gemini with goal: '' @ ''Option 2'') = None"
    by (simp add: refused_ascii_stdout_def is_ascii_def)
  have g1: "generate_content refused_ascii_stdout
       (single_request ''http://example/video.mp4'' ''Option 2'') =
     Inl (PyException (''Connexion refus'' @ [CHR 0xC3, CHR 0xA9] @ ''e''))"
    by (simp add: refused_ascii_stdout_def scripted_def)
  have q1: "print_raises refused_ascii_stdout
      (''Gemini API Error: '' @ ''Connexion refus'' @ [CHR 0xC3, CHR 0xA9] @ ''e'') =
     Some (PyException ''ordinal not in range(128)'')"
    by (simp add: refused_ascii_stdout_def is_ascii_def)
  have r1: "perform_video_analysis refused_ascii_stdout ''http://example/video.mp4'' ''Option 2'' None =
     Inl (PyException ''ordinal not in range(128)'')"
    unfolding after_request [OF b1 p1] g1 using q1 by simp
  have v2: "\<not> valid_json ''NaN''"
    by code_simp
  have b2: "build_request nan_reply ''http://example/video.mp4'' ''Option 2'' None =
      Inr (single_request ''http://example/video.mp4'' ''Option 2'')"
    unfolding nan_reply_def by (rule scripted_builds_single) simp
  have p2: "print_raises nan_reply (''-> Sending request to Gemini with goal: '' @ ''Option 2'') = None"
    unfolding nan_reply_def by (rule scripted_prints)
  have g2: "generate_content nan_reply (single_request ''http://example/video.mp4'' ''Option 2'') =
     Inr \<lparr>response_text = Some ''NaN''\<rparr>"
    unfolding nan_reply_def by (rule scripted_call)
  have j2: "json_loads nan_reply (response_text \<lparr>response_text = Some ''NaN''\<rparr>) =
     Inr (JFloat NaN)"
    unfolding nan_reply_def by (simp add: scripted_decodes)
  have b3: "build_request interrupted ''http://example/video.mp4'' ''Option 2'' None =
      Inr (single_request ''http://example/video.mp4'' ''Option 2'')"
    unfolding interrupted_def by (rule scripted_builds_single) simp
  have p3: "print_raises interrupted (''-> Sending request to Gemini with goal: '' @ ''Option 2'') = None"
    unfolding interrupted_def by (rule scripted_prints)
  have g3: "generate_content interrupted (single_request ''http://example/video.mp4'' ''Option 2'') =
     Inl (PyBaseException [])"
    unfolding interrupted_def by (rule scripted_call)
  have r3: "perform_video_analysis interrupted ''http://example/video.mp4'' ''Option 2'' None =
     Inl (PyBaseException [])"
    unfolding after_request [OF b3 p3] g3 by simp
  have n2: "\<not> is_error_payload (JFloat NaN :: py_float json)"
    by simp
  from g1 r1 v2 g2 decoded_value_returned [OF b2 p2 g2 j2] n2 g3 r3 show ?thesis by blast
qed

text \<open>
  C2, amended: when the request is built and announced, and the call to the service
  raises an \<^verbatim>\<open>Exception\<close> with message \<open>msg\<close>, or the call returns and \<^verbatim>\<open>json.loads\<close>
  raises one on the response text, and the handler's \<^verbatim>\<open>print\<close> of the message
  succeeds, \<^verbatim>\<open>perform_video_analysis\<close> does not raise: it returns the mapping with
  \<open>msg\<close> under "error" and "Failed to get analysis from Gemini." under "message".
\<close>

theorem failure_returns_error_payload:
  assumes "build_request env video_uri user_goal reference_video_uri = Inr req"
    and "print_raises env (''-> Sending request to Gemini with goal: '' @ user_goal) = None"
    and "print_raises env (''Gemini API Error: '' @ msg) = None"
  shows "(generate_content env req = Inl (PyException msg) \<longrightarrow>
            perform_video_analysis env video_uri user_goal reference_video_uri =
              Inr (JObject [(''error'', JString msg),
                            (''message'', JString ''Failed to get analysis from Gemini.'')])) \<and>
         (generate_content env req = Inr resp \<and>
          json_loads env (response_text resp) = Inl (PyException msg) \<longrightarrow>
            perform_video_analysis env video_uri user_goal reference_video_uri =
              Inr (JObject [(''error'', JString msg),
                            (''message'', JString ''Failed to get analysis from Gemini.'')]))"
  unfolding after_request [OF assms(1,2)] using assms(3) by (simp add: error_payload_def)

theorem failure_returns_error_payload_witness:
  "perform_video_analysis refused ''http://example/video.mp4'' ''Option 2'' None =
     Inr (JObject [(''error'', JString ''[Errno 111] Connection refused''),
                   (''message'', JString ''Failed to get analysis from Gemini.'')]) \<and>
   perform_video_analysis
       (scripted (Inr \<lparr>response_text = Some ''not json''\<rparr>) [(score_11_text, score_11_document)])
       ''http://example/video.mp4'' ''Option 2'' None =
     Inr (JObject [(''error'', JString ''Expecting value: line 1 column 1 (char 0)''),
                   (''message'', JString ''Failed to get analysis from Gemini.'')])"
proof -
  have g1: "generate_content refused (single_request ''http://example/video.mp4'' ''Option 2'') =
      Inl (PyException ''[Errno 111] Connection refused'')"
    by (rule refused_call)
  have b2: "build_request
       (scripted (Inr \<lparr>response_text = Some ''not json''\<rparr>) [(score_11_text, score_11_document)])
       ''http://example/video.mp4'' ''Option 2'' None =
      Inr (single_request ''http://example/video.mp4'' ''Option 2'')"
    by (simp add: scripted_builds_single)
  have g2: "generate_content
       (scripted (Inr \<lparr>response_text = Some ''not json''\<rparr>) [(score_11_text, score_11_document)])
       (single_request ''http://example/video.mp4'' ''Option 2'') =
      Inr \<lparr>response_text = Some ''not json''\<rparr> \<and>
     json_loads
       (scripted (Inr \<lparr>response_text = Some ''not json''\<rparr>) [(score_11_text, score_11_document)])
       (response_text \<lparr>response_text = Some ''not json''\<rparr>) =
      Inl (PyException ''Expecting value: line 1 column 1 (char 0)'')"
    by (simp add: scripted_def score_11_text_def)
  from failure_returns_error_payload [OF refused_builds_single refused_prints refused_prints,
        where msg = "''[Errno 111] Connection refused''"] g1
      failure_returns_error_payload [OF b2 scripted_prints scripted_prints,
        where resp = "\<lparr>response_text = Some ''not json''\<rparr>"
        and msg = "''Expecting value: line 1 column 1 (char 0)''"] g2
  show ?thesis by blast
qed

section \<open>The two modes\<close>

text \<open>
  C3, as stated, fails: with the reference given as the empty string and the goal
  "Option 3", the request that is built is the single-video request, with one video
  reference and the base prompt, which says nothing of a second video.
\<close>

theorem comparison_request_counterexample:
  "build_request refused ''http://example/video.mp4'' ''Option 3'' (Some '''') =
     Inr (single_request ''http://example/video.mp4'' ''Option 3'') \<and>
   contents (single_request ''http://example/video.mp4'' ''Option 3'') =
     [UriPart ''http://example/video.mp4'' ''video/mp4'',
      TextPart (get_base_analysis_prompt ''Option 3'')] \<and>
   \<not> mentions_second_video (get_base_analysis_prompt ''Option 3'')"
proof -
  have "\<not> truthy (Some '''')" by simp
  then have "build_request refused ''http://example/video.mp4'' ''Option 3'' (Some '''') =
     Inr (single_request ''http://example/video.mp4'' ''Option 3'')"
    unfolding refused_def by (intro scripted_builds_single) blast
  moreover have "contents (single_request ''http://example/video.mp4'' ''Option 3'') =
     [UriPart ''http://example/video.mp4'' ''video/mp4'',
      TextPart (get_base_analysis_prompt ''Option 3'')]"
    unfolding single_request_def by simp
  moreover have "\<not> mentions_second_video ''Option 3''"
    unfolding mentions_second_video_def by code_simp
  then have "\<not> mentions_second_video (get_base_analysis_prompt ''Option 3'')"
    using base_prompt_mentions [of "''Option 3''"] by blast
  ultimately show ?thesis by blast
qed

text \<open>
  C3, amended: when the reference is given and not empty and the goal is "Option 3",
  the request that is built holds the primary video, then the reference video, then a
  prompt that starts with the instruction to compare the first video with the second
  and goes on with the base prompt.
\<close>

theorem comparison_request_built:
  assumes "reference_video_uri \<noteq> []"
    and "build_request env video_uri ''Option 3'' (Some reference_video_uri) = Inr req"
  shows "contents req =
           [UriPart video_uri ''video/mp4'',
            UriPart reference_video_uri ''video/mp4'',
            TextPart (''Compare the FIRST video (User's upload) with the SECOND video (Reference/Goal). '' @
                      get_base_analysis_prompt ''Option 3'')] \<and>
         filter is_video (contents req) =
           [UriPart video_uri ''video/mp4'', UriPart reference_video_uri ''video/mp4'']"
  unfolding comparison_built [OF assms] comparison_request_def by simp

theorem comparison_request_built_witness:
  "''http://example/reference.mp4'' \<noteq> [] \<and>
   build_request refused ''http://example/video.mp4'' ''Option 3''
       (Some ''http://example/reference.mp4'') =
     Inr (comparison_request ''http://example/video.mp4'' ''Option 3''
            ''http://example/reference.mp4'') \<and>
   filter is_video (contents (comparison_request ''http://example/video.mp4'' ''Option 3''
            ''http://example/reference.mp4'')) =
     [UriPart ''http://example/video.mp4'' ''video/mp4'',
      UriPart ''http://example/reference.mp4'' ''video/mp4'']"
proof -
  have n: "''http://example/reference.mp4'' \<noteq> []" by simp
  have b: "build_request refused ''http://example/video.mp4'' ''Option 3''
       (Some ''http://example/reference.mp4'') =
     Inr (comparison_request ''http://example/video.mp4'' ''Option 3''
            ''http://example/reference.mp4'')"
    unfolding refused_def by (rule scripted_builds_comparison [OF n])
  from comparison_request_built [OF n b] n b show ?thesis by blast
qed

text \<open>
  C4: when the reference is given and the goal is not "Option 3", the request, and with
  it the whole run, is the same as without the reference: the request that is built is
  the single-video request for the same video and goal, with the base prompt and
  without the reference video.
\<close>

theorem reference_ignored:
  assumes "user_goal \<noteq> ''Option 3''"
  shows "build_request env video_uri user_goal (Some reference_video_uri) =
           build_request env video_uri user_goal None \<and>
         perform_video_analysis env video_uri user_goal (Some reference_video_uri) =
           perform_video_analysis env video_uri user_goal None \<and>
         (build_request env video_uri user_goal (Some reference_video_uri) = Inr req \<longrightarrow>
            req = single_request video_uri user_goal)"
proof -
  have s: "\<not> (truthy (Some reference_video_uri) \<and> user_goal = ''Option 3'')"
    using assms by blast
  have n: "\<not> (truthy None \<and> user_goal = ''Option 3'')"
    using assms by blast
  have b: "build_request env video_uri user_goal (Some reference_video_uri) =
           build_request env video_uri user_goal None"
    by (simp only: build_request_single [OF s] build_request_single [OF n])
  have "build_request env video_uri user_goal (Some reference_video_uri) = Inr req \<longrightarrow>
            req = single_request video_uri user_goal"
    using single_built [OF s] by blast
  moreover have "perform_video_analysis env video_uri user_goal (Some reference_video_uri) =
           perform_video_analysis env video_uri user_goal None"
    unfolding perform_video_analysis_def b by (rule refl)
  ultimately show ?thesis using b by blast
qed

theorem reference_ignored_witness:
  "''Option 2'' \<noteq> ''Option 3'' \<and>
   build_request refused ''http://example/video.mp4'' ''Option 2''
       (Some ''http://example/reference.mp4'') =
     Inr (single_request ''http://example/video.mp4'' ''Option 2'') \<and>
   build_request refused ''http://example/video.mp4'' ''Option 2'' None =
     Inr (single_request ''http://example/video.mp4'' ''Option 2'')"
proof -
  have n: "''Option 2'' \<noteq> ''Option 3''" by simp
  then have "\<not> (truthy (Some ''http://example/reference.mp4'') \<and> ''Option 2'' = ''Option 3'')"
    by blast
  then have b: "build_request refused ''http://example/video.mp4'' ''Option 2''
       (Some ''http://example/reference.mp4'') =
     Inr (single_request ''http://example/video.mp4'' ''Option 2'')"
    unfolding refused_def by (rule scripted_builds_single)
  from reference_ignored [OF n, of refused "''http://example/video.mp4''"
        "''http://example/reference.mp4''"] n b
  show ?thesis by metis
qed

section \<open>The prompt\<close>

lemma goal_in_base_prompt: "sublist goal (get_base_analysis_prompt goal)"
proof -
  have "get_base_analysis_prompt goal =
      (prompt_head @ '': '') @ goal @ (CHR ''.'' # prompt_tail)"
    by (simp add: base_prompt_split)
  then show ?thesis by (simp only: sublist_appendI)
qed

lemma goal_in_comparison_prompt:
  "sublist goal (instruction @ get_base_analysis_prompt goal)"
  using goal_in_base_prompt [of goal] sublist_order.order_trans suffix_imp_sublist [OF suffixI [OF refl]]
  by blast

lemma single_prompt_texts: "prompt_texts (single_request v g) = [get_base_analysis_prompt g]"
  by (simp add: prompt_texts_def single_request_def List.map_filter_simps)

lemma comparison_prompt_texts:
  "prompt_texts (comparison_request v g u) =
     [''Compare the FIRST video (User's upload) with the SECOND video (Reference/Goal). '' @
      get_base_analysis_prompt g]"
  by (simp add: prompt_texts_def comparison_request_def List.map_filter_simps)

text \<open>
  C5, as stated, fails: with no reference and the goal "second video", the prompt that
  is sent contains the goal, and so refers to a second video.
\<close>

theorem single_prompt_counterexample:
  "build_request refused ''http://example/video.mp4'' ''second video'' None =
     Inr (single_request ''http://example/video.mp4'' ''second video'') \<and>
   prompt_texts (single_request ''http://example/video.mp4'' ''second video'') =
     [get_base_analysis_prompt ''second video''] \<and>
   mentions_second_video (get_base_analysis_prompt ''second video'')"
proof -
  have "\<not> (truthy None \<and> ''second video'' = ''Option 3'')" by simp
  then have "build_request refused ''http://example/video.mp4'' ''second video'' None =
     Inr (single_request ''http://example/video.mp4'' ''second video'')"
    unfolding refused_def by (rule scripted_builds_single)
  moreover have "mentions_second_video ''second video''"
    unfolding mentions_second_video_def by code_simp
  then have "mentions_second_video (get_base_analysis_prompt ''second video'')"
    using base_prompt_mentions [of "''second video''"] by blast
  ultimately show ?thesis using single_prompt_texts by blast
qed

text \<open>
  C5, amended: with no reference, the one prompt that is sent is the base prompt for the
  goal, without the comparison instruction; it refers to a second video exactly when
  the text of the goal does.
\<close>

theorem single_prompt:
  assumes "build_request env video_uri user_goal None = Inr req"
  shows "prompt_texts req = [get_base_analysis_prompt user_goal] \<and>
         (mentions_second_video (get_base_analysis_prompt user_goal) \<longleftrightarrow>
            mentions_second_video user_goal)"
proof -
  have "\<not> (truthy None \<and> user_goal = ''Option 3'')" by simp
  from single_built [OF this assms] show ?thesis
    by (simp only: single_prompt_texts base_prompt_mentions)
qed

theorem single_prompt_witness:
  "build_request refused ''http://example/video.mp4'' ''Option 2'' None =
     Inr (single_request ''http://example/video.mp4'' ''Option 2'') \<and>
   prompt_texts (single_request ''http://example/video.mp4'' ''Option 2'') =
     [get_base_analysis_prompt ''Option 2''] \<and>
   \<not> mentions_second_video ''Option 2'' \<and>
   \<not> mentions_second_video (get_base_analysis_prompt ''Option 2'')"
proof -
  have m: "\<not> mentions_second_video ''Option 2''"
    unfolding mentions_second_video_def by code_simp
  from single_prompt [OF refused_builds_single [of "''http://example/video.mp4''"]]
    refused_builds_single [of "''http://example/video.mp4''"] m
  show ?thesis by blast
qed

text \<open>
  C8: the prompt depends on the goal and the reference only: two runs with the same
  video, goal and reference, against any two behaviours of the library and the service,
  send the same prompt; and in either mode the one prompt that is sent contains the
  goal as it was given.
\<close>

theorem prompt_deterministic:
  "(build_request env video_uri user_goal reference_video_uri = Inr req \<and>
    build_request env' video_uri user_goal reference_video_uri = Inr req' \<longrightarrow>
      prompt_texts req = prompt_texts req') \<and>
   (build_request env video_uri user_goal reference_video_uri = Inr req \<longrightarrow>
      (\<exists>p. prompt_texts req = [p] \<and> sublist user_goal p))"
proof (cases "truthy reference_video_uri \<and> user_goal = ''Option 3''")
  case True
  then obtain u where u: "reference_video_uri = Some u" "u \<noteq> []" "user_goal = ''Option 3''"
    by (cases reference_video_uri) auto
  have "req'' = comparison_request video_uri ''Option 3'' u"
    if "build_request env'' video_uri user_goal reference_video_uri = Inr req''" for env'' :: "'a environment" and req''
    using that u comparison_built by blast
  moreover have "build_request env' video_uri user_goal reference_video_uri = Inr req' \<Longrightarrow>
      req' = comparison_request video_uri ''Option 3'' u"
    using u comparison_built by blast
  ultimately show ?thesis
    using u(3) comparison_prompt_texts goal_in_comparison_prompt by metis
next
  case False
  have "req'' = single_request video_uri user_goal"
    if "build_request env'' video_uri user_goal reference_video_uri = Inr req''" for env'' :: "'a environment" and req''
    using that single_built [OF False] by blast
  moreover have "build_request env' video_uri user_goal reference_video_uri = Inr req' \<Longrightarrow>
      req' = single_request video_uri user_goal"
    using single_built [OF False] by blast
  ultimately show ?thesis
    using single_prompt_texts goal_in_base_prompt by metis
qed

theorem prompt_deterministic_witness:
  "build_request refused ''http://example/video.mp4'' ''Option 3''
       (Some ''http://example/reference.mp4'') =
     Inr (comparison_request ''http://example/video.mp4'' ''Option 3''
            ''http://example/reference.mp4'') \<and>
   build_request rejecting ''http://example/video.mp4'' ''Option 3''
       (Some ''http://example/reference.mp4'') =
     Inr (comparison_request ''http://example/video.mp4'' ''Option 3''
            ''http://example/reference.mp4'') \<and>
   (\<exists>p. prompt_texts (comparison_request ''http://example/video.mp4'' ''Option 3''
            ''http://example/reference.mp4'') = [p] \<and> sublist ''Option 3'' p)"
proof -
  have a: "build_request refused ''http://example/video.mp4'' ''Option 3''
       (Some ''http://example/reference.mp4'') =
     Inr (comparison_request ''http://example/video.mp4'' ''Option 3''
            ''http://example/reference.mp4'')"
    unfolding refused_def by (rule scripted_builds_comparison) simp
  have b: "build_request rejecting ''http://example/video.mp4'' ''Option 3''
       (Some ''http://example/reference.mp4'') =
     Inr (comparison_request ''http://example/video.mp4'' ''Option 3''
            ''http://example/reference.mp4'')"
    by (rule rejecting_builds_comparison) simp_all
  from prompt_deterministic [of refused "''http://example/video.mp4''" "''Option 3''"
      "Some ''http://example/reference.mp4''" _ rejecting] a b
  show ?thesis by blast
qed

section \<open>Validation against the schema\<close>









section \<open>Exceptions before the call\<close>

text \<open>
  C9: an exception raised while the request is put together (by the constructor of the
  main video part, or by any later constructor) reaches the caller as it is, also when
  it is an \<^verbatim>\<open>Exception\<close> that the handler would have absorbed; and whenever the
  function returns a value, the request had been built without an exception.
\<close>

theorem construction_exception_propagates:
  "(Part_from_uri env video_uri ''video/mp4'' = Inl e \<longrightarrow>
      perform_video_analysis env video_uri user_goal reference_video_uri = Inl e) \<and>
   (build_request env video_uri user_goal reference_video_uri = Inl e \<longrightarrow>
      perform_video_analysis env video_uri user_goal reference_video_uri = Inl e) \<and>
   (perform_video_analysis env video_uri user_goal reference_video_uri = Inr x \<longrightarrow>
      (\<exists>req. build_request env video_uri user_goal reference_video_uri = Inr req))"
  by (auto simp add: perform_video_analysis_def build_request_def
      split: sum.splits option.splits py_raise.splits)

theorem construction_exception_propagates_witness:
  "Part_from_uri rejecting '''' ''video/mp4'' = Inl (PyException ''invalid URI'') \<and>
   build_request rejecting '''' ''Option 2'' None = Inl (PyException ''invalid URI'') \<and>
   perform_video_analysis rejecting '''' ''Option 2'' None = Inl (PyException ''invalid URI'') \<and>
   perform_video_analysis refused ''http://example/video.mp4'' ''Option 2'' None =
     Inr (error_payload ''[Errno 111] Connection refused'') \<and>
   (\<exists>req. build_request refused ''http://example/video.mp4'' ''Option 2'' None = Inr req)"
proof -
  have p: "Part_from_uri rejecting '''' ''video/mp4'' = Inl (PyException ''invalid URI'')"
    by (simp add: Part_from_uri_def rejecting_def)
  have b: "build_request rejecting '''' ''Option 2'' None = Inl (PyException ''invalid URI'')"
    by (simp add: build_request_single rejecting_def)
  have r: "perform_video_analysis refused ''http://example/video.mp4'' ''Option 2'' None =
     Inr (error_payload ''[Errno 111] Connection refused'')"
    by (rule exception_absorbed [OF refused_builds_single refused_prints refused_call
          refused_prints])
  show ?thesis
    using p b r
      construction_exception_propagates [of rejecting "''''" "PyException ''invalid URI''"
        "''Option 2''" None]
      construction_exception_propagates [of refused "''http://example/video.mp4''" _
        "''Option 2''" None "error_payload ''[Errno 111] Connection refused''"]
    by simp
qed

section \<open>The content list of a request\<close>

text \<open>
  C10: whenever \<^verbatim>\<open>perform_video_analysis\<close> gets as far as the call, the content list
  it passes ends with a text part, every part before the last is a video part, exactly
  one part is a text part, and the list has three parts in comparison mode (reference
  given and non-empty, goal equal to "Option 3") and two parts otherwise.
\<close>

theorem request_contents_shape:
  assumes "build_request env video_uri user_goal reference_video_uri = Inr req"
  shows "is_text (last (contents req)) \<and>
         (\<forall>p \<in> set (butlast (contents req)). is_video p) \<and>
         length (filter is_text (contents req)) = 1 \<and>
         length (contents req) =
           (if truthy reference_video_uri \<and> user_goal = ''Option 3'' then 3 else 2)"
proof (cases "truthy reference_video_uri \<and> user_goal = ''Option 3''")
  case True
  then obtain u where u: "reference_video_uri = Some u" "u \<noteq> []"
    by (cases reference_video_uri) auto
  from True u assms have "req = comparison_request video_uri ''Option 3'' u"
    by (simp add: comparison_built)
  with True show ?thesis by (simp add: comparison_request_def)
next
  case False
  from single_built [OF False assms] False show ?thesis
    by (simp add: single_request_def)
qed

theorem request_contents_shape_witness:
  "build_request refused ''http://example/video.mp4'' ''Option 3''
       (Some ''http://example/reference.mp4'')
     = Inr (comparison_request ''http://example/video.mp4'' ''Option 3''
              ''http://example/reference.mp4'') \<and>
   is_text (last (contents (comparison_request ''http://example/video.mp4'' ''Option 3''
              ''http://example/reference.mp4''))) \<and>
   length (contents (comparison_request ''http://example/video.mp4'' ''Option 3''
              ''http://example/reference.mp4'')) = 3"
proof -
  have h: "build_request refused ''http://example/video.mp4'' ''Option 3''
       (Some ''http://example/reference.mp4'')
     = Inr (comparison_request ''http://example/video.mp4'' ''Option 3''
              ''http://example/reference.mp4'')"
    by (simp add: refused_def scripted_builds_comparison)
  show ?thesis using h request_contents_shape [OF h] by simp
qed

end
